theory Spec2Isabelle
  imports Main "HOL-Library.AList"
begin

section \<open>config-fs-utils: the safe file-write protocol\<close>

text \<open>
  A shallow embedding of \<^verbatim>\<open>src/index.js\<close>. The module is a thin layer over three
  Node.js built-ins (\<^verbatim>\<open>fs.promises\<close>, \<^verbatim>\<open>path\<close>, \<^verbatim>\<open>os\<close>) and the clock. None of
  them is code of the repository, so they are taken as a parameter: a record
  \<open>platform\<close> of operations over an arbitrary world type \<open>'w\<close>. Every theorem about the
  module's own control flow then holds for every behaviour of the built-ins. A small
  in-memory POSIX-like instance (\<open>posix\<close>, further down) is used to run the module on
  concrete inputs.

  \<^item> A JavaScript string is a \<open>string\<close> (a list of code units).
  \<^item> An options object is a finite map from property names to JavaScript values; a
    missing property reads as \<open>undefined\<close>.
  \<^item> An object that is enumerated (\<^verbatim>\<open>files\<close>, \<^verbatim>\<open>paths\<close>) is the list of its
    properties in insertion order, with distinct names; \<open>Object_entries\<close> puts them
    in the order in which \<^verbatim>\<open>Object.entries\<close> yields them.
  \<^item> \<^verbatim>\<open>os.homedir()\<close>, \<^verbatim>\<open>path.join\<close> and \<^verbatim>\<open>path.dirname\<close> are total on strings; the
    \<^verbatim>\<open>async\<close> functions run to completion one \<^verbatim>\<open>await\<close> after the other, with no
    other writer in between.
  \<^item> A rejected promise / thrown exception is \<open>Inl e\<close>, a fulfilled one \<open>Inr v\<close>;
    \<^verbatim>\<open>await\<close> on a rejection propagates it unless a \<^verbatim>\<open>try/catch\<close> encloses it.
  \<^item> Every call of an \<^verbatim>\<open>fs\<close> primitive is appended, with its outcome, to a trace that
    is carried beside the world, so that the order of the side effects can be stated.
\<close>

subsection \<open>JavaScript values, errors, platform\<close>

datatype jsval = JUndefined | JNull | JBool bool | JNum int | JStr string

text \<open>Truthiness, as used by \<^verbatim>\<open>if (options.backup)\<close>.\<close>

fun truthy :: "jsval \<Rightarrow> bool" where
  "truthy JUndefined = False"
| "truthy JNull = False"
| "truthy (JBool b) = b"
| "truthy (JNum n) = (n \<noteq> 0)"
| "truthy (JStr s) = (s \<noteq> [])"

type_synonym js_object = "string \<rightharpoonup> jsval"

text \<open>Property read \<^verbatim>\<open>obj.k\<close>: a missing property is \<open>undefined\<close>.\<close>

definition get_prop :: "js_object \<Rightarrow> string \<Rightarrow> jsval" where
  "get_prop obj k = (case obj k of None \<Rightarrow> JUndefined | Some v \<Rightarrow> v)"

text \<open>
  Object spread \<^verbatim>\<open>{ ...a, ...b }\<close>: the own properties of \<open>b\<close> are copied over those
  of \<open>a\<close>.
\<close>

definition spread :: "js_object \<Rightarrow> js_object \<Rightarrow> js_object" where
  "spread a b = a ++ b"

text \<open>
  \<^verbatim>\<open>Object.entries\<close>: the properties whose name is an array index (the canonical
  decimal numeral of an integer from \<open>0\<close> to \<open>2^32 - 2\<close>) come first, in ascending
  numeric order; all other properties follow in insertion order.
\<close>

definition is_digit :: "char \<Rightarrow> bool" where
  "is_digit c = (let n = (of_char c :: nat) in 48 \<le> n \<and> n \<le> 57)"

definition decimal_value :: "string \<Rightarrow> nat" where
  "decimal_value k = foldl (\<lambda>n c. 10 * n + (of_char c - 48)) 0 k"

definition is_array_index :: "string \<Rightarrow> bool" where
  "is_array_index k =
     (k \<noteq> [] \<and> list_all is_digit k \<and> (k = ''0'' \<or> hd k \<noteq> CHR ''0'')
      \<and> decimal_value k \<le> 4294967294)"

definition Object_entries :: "(string \<times> 'v) list \<Rightarrow> (string \<times> 'v) list" where
  "Object_entries obj =
     sort_key (\<lambda>entry. decimal_value (fst entry))
       (filter (\<lambda>entry. is_array_index (fst entry)) obj)
     @ filter (\<lambda>entry. \<not> is_array_index (fst entry)) obj"

datatype error = SystemError string | TypeError string

record stats =
  st_isFile :: bool
  st_isDirectory :: bool
  st_mode :: int
  st_size :: nat

text \<open>
  The built-ins the module calls. \<open>sys_mkdir\<close> is
  \<^verbatim>\<open>fs.mkdir(p, { recursive: true })\<close>, \<open>sys_writeFile\<close> is
  \<^verbatim>\<open>fs.writeFile(p, content, "utf8")\<close>, \<open>date_toISOString\<close> is
  \<^verbatim>\<open>new Date().toISOString()\<close>. A primitive may change the world also when it fails.
\<close>

record 'w platform =
  os_homedir :: string
  path_join :: "string \<Rightarrow> string \<Rightarrow> string"
  path_dirname :: "string \<Rightarrow> string"
  date_toISOString :: "'w \<Rightarrow> string"
  sys_mkdir :: "string \<Rightarrow> 'w \<Rightarrow> (error + unit) \<times> 'w"
  sys_access :: "string \<Rightarrow> 'w \<Rightarrow> (error + unit) \<times> 'w"
  sys_copyFile :: "string \<Rightarrow> string \<Rightarrow> 'w \<Rightarrow> (error + unit) \<times> 'w"
  sys_writeFile :: "string \<Rightarrow> string \<Rightarrow> 'w \<Rightarrow> (error + unit) \<times> 'w"
  sys_chmod :: "string \<Rightarrow> jsval \<Rightarrow> 'w \<Rightarrow> (error + unit) \<times> 'w"
  sys_stat :: "string \<Rightarrow> 'w \<Rightarrow> (error + stats) \<times> 'w"

datatype call =
    Mkdir string
  | Access string
  | CopyFile string string
  | WriteFile string string
  | Chmod string jsval
  | Stat string

text \<open>An event is a primitive call with its outcome: \<open>None\<close> when it succeeded.\<close>

type_synonym event = "call \<times> error option"

record 'w state =
  world :: 'w
  trace :: "event list"

definition outcome :: "error + 'a \<Rightarrow> error option" where
  "outcome r = (case r of Inl e \<Rightarrow> Some e | Inr _ \<Rightarrow> None)"

definition invoke ::
  "call \<Rightarrow> ('w \<Rightarrow> (error + 'a) \<times> 'w) \<Rightarrow> 'w state \<Rightarrow> (error + 'a) \<times> 'w state" where
  "invoke c f s =
     (case f (world s) of
        (r, w') \<Rightarrow> (r, \<lparr>world = w', trace = trace s @ [(c, outcome r)]\<rparr>))"

definition fs_mkdir :: "'w platform \<Rightarrow> string \<Rightarrow> 'w state \<Rightarrow> (error + unit) \<times> 'w state" where
  "fs_mkdir P p = invoke (Mkdir p) (sys_mkdir P p)"

definition fs_access :: "'w platform \<Rightarrow> string \<Rightarrow> 'w state \<Rightarrow> (error + unit) \<times> 'w state" where
  "fs_access P p = invoke (Access p) (sys_access P p)"

definition fs_copyFile ::
  "'w platform \<Rightarrow> string \<Rightarrow> string \<Rightarrow> 'w state \<Rightarrow> (error + unit) \<times> 'w state" where
  "fs_copyFile P src dst = invoke (CopyFile src dst) (sys_copyFile P src dst)"

definition fs_writeFile ::
  "'w platform \<Rightarrow> string \<Rightarrow> string \<Rightarrow> 'w state \<Rightarrow> (error + unit) \<times> 'w state" where
  "fs_writeFile P p content = invoke (WriteFile p content) (sys_writeFile P p content)"

definition fs_chmod ::
  "'w platform \<Rightarrow> string \<Rightarrow> jsval \<Rightarrow> 'w state \<Rightarrow> (error + unit) \<times> 'w state" where
  "fs_chmod P p m = invoke (Chmod p m) (sys_chmod P p m)"

definition fs_stat :: "'w platform \<Rightarrow> string \<Rightarrow> 'w state \<Rightarrow> (error + stats) \<times> 'w state" where
  "fs_stat P p = invoke (Stat p) (sys_stat P p)"

subsection \<open>The module\<close>

text \<open>
  \<^verbatim>\<open>expandHome\<close>: \<^verbatim>\<open>filepath.startsWith("~/") || filepath === "~"\<close>, then
  \<^verbatim>\<open>path.join(os.homedir(), filepath.slice(2))\<close>.
\<close>

definition expandHome :: "'w platform \<Rightarrow> string \<Rightarrow> string" where
  "expandHome P filepath =
     (if take 2 filepath = ''~/'' \<or> filepath = ''~''
      then path_join P (os_homedir P) (drop 2 filepath)
      else filepath)"

definition ensureDirectory ::
  "'w platform \<Rightarrow> string \<Rightarrow> 'w state \<Rightarrow> (error + string) \<times> 'w state" where
  "ensureDirectory P dir s =
     (let expandedDir = expandHome P dir in
      case fs_mkdir P expandedDir s of
        (Inl e, s') \<Rightarrow> (Inl e, s')
      | (Inr _, s') \<Rightarrow> (Inr expandedDir, s'))"

text \<open>The \<^verbatim>\<open>for ... of\<close> loop of \<^verbatim>\<open>ensureDirectories\<close>, with \<open>results\<close> as accumulator.\<close>

fun ensureDirectories_loop ::
  "'w platform \<Rightarrow> string list \<Rightarrow> string list \<Rightarrow> 'w state \<Rightarrow> (error + string list) \<times> 'w state"
where
  "ensureDirectories_loop P [] results s = (Inr results, s)"
| "ensureDirectories_loop P (dir # rest) results s =
     (case ensureDirectory P dir s of
        (Inl e, s') \<Rightarrow> (Inl e, s')
      | (Inr created, s') \<Rightarrow> ensureDirectories_loop P rest (results @ [created]) s')"

definition ensureDirectories ::
  "'w platform \<Rightarrow> string list \<Rightarrow> 'w state \<Rightarrow> (error + string list) \<times> 'w state" where
  "ensureDirectories P dirs s = ensureDirectories_loop P dirs [] s"

text \<open>\<^verbatim>\<open>.replace(/[:.]/g, "-")\<close> on the ISO timestamp.\<close>

definition replace_colon_period :: "string \<Rightarrow> string" where
  "replace_colon_period t = map (\<lambda>c. if c = CHR '':'' \<or> c = CHR ''.'' then CHR ''-'' else c) t"

text \<open>
  \<^verbatim>\<open>backupFile\<close>: one \<^verbatim>\<open>try\<close> block holds both \<^verbatim>\<open>fs.access\<close> and \<^verbatim>\<open>fs.copyFile\<close>; the
  \<^verbatim>\<open>catch\<close> returns \<^verbatim>\<open>null\<close> (\<open>None\<close>) for an error of either.
\<close>

definition backupFile ::
  "'w platform \<Rightarrow> string \<Rightarrow> 'w state \<Rightarrow> (error + string option) \<times> 'w state" where
  "backupFile P filepath s =
     (let expandedPath = expandHome P filepath in
      case fs_access P expandedPath s of
        (Inl error, s1) \<Rightarrow> (Inr None, s1)
      | (Inr _, s1) \<Rightarrow>
          (let timestamp = replace_colon_period (date_toISOString P (world s1));
               backupPath = expandedPath @ ''.backup-'' @ timestamp in
           case fs_copyFile P expandedPath backupPath s1 of
             (Inl error, s2) \<Rightarrow> (Inr None, s2)
           | (Inr _, s2) \<Rightarrow> (Inr (Some backupPath), s2)))"

record write_result =
  path :: string
  backup :: "string option"
  created :: bool

definition writeFile ::
  "'w platform \<Rightarrow> string \<Rightarrow> string \<Rightarrow> js_object \<Rightarrow> 'w state \<Rightarrow> (error + write_result) \<times> 'w state"
where
  "writeFile P filepath content options s =
     (let expandedPath = expandHome P filepath;
          dir = path_dirname P expandedPath in
      case ensureDirectory P dir s of
        (Inl e, s1) \<Rightarrow> (Inl e, s1)
      | (Inr _, s1) \<Rightarrow>
         (case (if truthy (get_prop options ''backup'')
                then backupFile P expandedPath s1
                else (Inr None, s1)) of
            (Inl e, s2) \<Rightarrow> (Inl e, s2)
          | (Inr backupPath, s2) \<Rightarrow>
             (case fs_writeFile P expandedPath content s2 of
                (Inl e, s3) \<Rightarrow> (Inl e, s3)
              | (Inr _, s3) \<Rightarrow>
                 (case (if get_prop options ''permissions'' \<noteq> JUndefined
                        then fs_chmod P expandedPath (get_prop options ''permissions'') s3
                        else (Inr (), s3)) of
                    (Inl e, s4) \<Rightarrow> (Inl e, s4)
                  | (Inr _, s4) \<Rightarrow>
                      (Inr \<lparr>path = expandedPath, backup = backupPath,
                            created = (backupPath = None)\<rparr>, s4)))))"

text \<open>
  The loop of \<^verbatim>\<open>writeFiles\<close>, with \<open>results\<close> as accumulator; \<open>writeFiles\<close> runs it
  over \<^verbatim>\<open>Object.entries(files)\<close>.
\<close>

fun writeFiles_loop ::
  "'w platform \<Rightarrow> (string \<times> string) list \<Rightarrow> js_object \<Rightarrow> write_result list \<Rightarrow> 'w state
     \<Rightarrow> (error + write_result list) \<times> 'w state"
where
  "writeFiles_loop P [] options results s = (Inr results, s)"
| "writeFiles_loop P ((filepath, content) # rest) options results s =
     (case writeFile P filepath content options s of
        (Inl e, s') \<Rightarrow> (Inl e, s')
      | (Inr result, s') \<Rightarrow> writeFiles_loop P rest options (results @ [result]) s')"

definition writeFiles ::
  "'w platform \<Rightarrow> (string \<times> string) list \<Rightarrow> js_object \<Rightarrow> 'w state
     \<Rightarrow> (error + write_result list) \<times> 'w state" where
  "writeFiles P files options s = writeFiles_loop P (Object_entries files) options [] s"

text \<open>\<^verbatim>\<open>{ backup: true, permissions: 0o600, ...options }\<close>; \<open>0o600 = 384\<close>.\<close>

definition writeConfigFiles ::
  "'w platform \<Rightarrow> (string \<times> string) list \<Rightarrow> js_object \<Rightarrow> 'w state
     \<Rightarrow> (error + write_result list) \<times> 'w state" where
  "writeConfigFiles P files options s =
     (let defaultOptions =
            spread [''backup'' \<mapsto> JBool True, ''permissions'' \<mapsto> JNum 384] options
      in writeFiles P files defaultOptions s)"

text \<open>\<^verbatim>\<open>exists\<close> (the name is taken in HOL) and \<^verbatim>\<open>getStats\<close>: a bare \<^verbatim>\<open>catch\<close>.\<close>

definition exists_path :: "'w platform \<Rightarrow> string \<Rightarrow> 'w state \<Rightarrow> (error + bool) \<times> 'w state" where
  "exists_path P filepath s =
     (let expandedPath = expandHome P filepath in
      case fs_access P expandedPath s of
        (Inl e, s') \<Rightarrow> (Inr False, s')
      | (Inr _, s') \<Rightarrow> (Inr True, s'))"

definition getStats ::
  "'w platform \<Rightarrow> string \<Rightarrow> 'w state \<Rightarrow> (error + stats option) \<times> 'w state" where
  "getStats P filepath s =
     (let expandedPath = expandHome P filepath in
      case fs_stat P expandedPath s of
        (Inl e, s') \<Rightarrow> (Inr None, s')
      | (Inr st, s') \<Rightarrow> (Inr (Some st), s'))"

text \<open>
  \<^verbatim>\<open>String.prototype.toLowerCase\<close> on the ASCII letters. A key is a property name of
  the paths object; a code unit outside \<open>A..Z\<close> is left as it is, which decides
  membership in \<open>fileKeys\<close> as JavaScript does, since no code unit outside ASCII
  lower-cases to one of the letters of the two markers.
\<close>

definition lower_char :: "char \<Rightarrow> char" where
  "lower_char c =
     (let n = (of_char c :: nat) in if 65 \<le> n \<and> n \<le> 90 then char_of (n + 32) else c)"

definition toLowerCase :: "string \<Rightarrow> string" where
  "toLowerCase k = map lower_char k"

definition fileKeys :: "string list" where
  "fileKeys = [''accountmuttrc'', ''mainmuttrc'']"

text \<open>\<^verbatim>\<open>Set.prototype.add\<close>: a set that remembers insertion order.\<close>

definition set_add :: "'a list \<Rightarrow> 'a \<Rightarrow> 'a list" where
  "set_add dirs d = (if d \<in> set dirs then dirs else dirs @ [d])"

fun collect_dirs :: "'w platform \<Rightarrow> (string \<times> string) list \<Rightarrow> string list \<Rightarrow> string list" where
  "collect_dirs P [] dirs = dirs"
| "collect_dirs P ((key, filepath) # rest) dirs =
     (let expandedPath = expandHome P filepath;
          normalizedKey = toLowerCase key in
      if normalizedKey \<in> set fileKeys
      then collect_dirs P rest (set_add dirs (path_dirname P expandedPath))
      else collect_dirs P rest (set_add dirs expandedPath))"

definition ensureDirectoriesFromPaths ::
  "'w platform \<Rightarrow> (string \<times> string) list \<Rightarrow> 'w state \<Rightarrow> (error + string list) \<times> 'w state" where
  "ensureDirectoriesFromPaths P paths s =
     ensureDirectories P (collect_dirs P (Object_entries paths) []) s"

subsection \<open>A concrete platform: POSIX paths and an in-memory file system\<close>

text \<open>
  The instance below is not code of the repository. The path functions follow Node's
  \<^verbatim>\<open>path.posix\<close> (\<^verbatim>\<open>join\<close> of two arguments, \<^verbatim>\<open>normalize\<close>, \<^verbatim>\<open>dirname\<close>); the file
  system knows files (content and mode), directories, and directories in which no new
  entry may be created. It serves to evaluate the module on concrete inputs.
\<close>

fun split_slash :: "string \<Rightarrow> string \<Rightarrow> string list" where
  "split_slash cur [] = [cur]"
| "split_slash cur (c # cs) =
     (if c = CHR ''/'' then cur # split_slash [] cs else split_slash (cur @ [c]) cs)"

fun join_slash :: "string list \<Rightarrow> string" where
  "join_slash [] = []"
| "join_slash [x] = x"
| "join_slash (x # y # ys) = x @ ''/'' @ join_slash (y # ys)"

text \<open>Segment normalisation; \<open>acc\<close> holds the kept segments, last one first.\<close>

fun norm_segs :: "bool \<Rightarrow> string list \<Rightarrow> string list \<Rightarrow> string list" where
  "norm_segs allowAbove acc [] = rev acc"
| "norm_segs allowAbove acc (seg # segs) =
     (if seg = [] \<or> seg = ''.'' then norm_segs allowAbove acc segs
      else if seg = ''..'' then
        (case acc of
           [] \<Rightarrow> norm_segs allowAbove (if allowAbove then [''..''] else []) segs
         | t # acc' \<Rightarrow>
             if t \<noteq> ''..'' then norm_segs allowAbove acc' segs
             else norm_segs allowAbove (if allowAbove then ''..'' # acc else acc) segs)
      else norm_segs allowAbove (seg # acc) segs)"

definition posix_normalize :: "string \<Rightarrow> string" where
  "posix_normalize p =
     (if p = [] then ''.''
      else
        (let isAbsolute = (hd p = CHR ''/'');
             trailingSeparator = (last p = CHR ''/'');
             q = join_slash (norm_segs (\<not> isAbsolute) [] (split_slash [] p)) in
         if q = [] then (if isAbsolute then ''/'' else if trailingSeparator then ''./'' else ''.'')
         else (if isAbsolute then ''/'' else []) @ q @ (if trailingSeparator then ''/'' else [])))"

definition posix_join :: "string \<Rightarrow> string \<Rightarrow> string" where
  "posix_join a b =
     (if a = [] \<and> b = [] then ''.''
      else posix_normalize (if a = [] then b else if b = [] then a else a @ ''/'' @ b))"

text \<open>
  The backward scan of \<^verbatim>\<open>dirname\<close> over \<open>rev path\<close>: index 0 is not looked at, and the
  result is the index of the slash that ends the directory part.
\<close>

fun dirname_scan :: "string \<Rightarrow> bool \<Rightarrow> nat option" where
  "dirname_scan [] matchedSlash = None"
| "dirname_scan (c # cs) matchedSlash =
     (if cs = [] then None
      else if c = CHR ''/'' then
        (if \<not> matchedSlash then Some (length cs) else dirname_scan cs matchedSlash)
      else dirname_scan cs False)"

definition posix_dirname :: "string \<Rightarrow> string" where
  "posix_dirname p =
     (if p = [] then ''.''
      else
        (case dirname_scan (rev p) True of
           None \<Rightarrow> if hd p = CHR ''/'' then ''/'' else ''.''
         | Some e \<Rightarrow> if hd p = CHR ''/'' \<and> e = 1 then ''//'' else take e p))"

record memfs =
  mem_files :: "(string \<times> string \<times> int) list"
  mem_dirs :: "string list"
  mem_readonly :: "string list"
  mem_clock :: string

definition mem_is_file :: "memfs \<Rightarrow> string \<Rightarrow> bool" where
  "mem_is_file w p = (map_of (mem_files w) p \<noteq> None)"

definition mem_is_dir :: "memfs \<Rightarrow> string \<Rightarrow> bool" where
  "mem_is_dir w p = (p = ''/'' \<or> p = ''.'' \<or> p \<in> set (mem_dirs w))"

text \<open>Creating a new entry \<open>p\<close>: its parent must be a directory that allows it.\<close>

definition mem_create_check :: "memfs \<Rightarrow> string \<Rightarrow> error option" where
  "mem_create_check w p =
     (let parent = posix_dirname p in
      if mem_is_file w parent then Some (SystemError ''ENOTDIR'')
      else if \<not> mem_is_dir w parent then Some (SystemError ''ENOENT'')
      else if parent \<in> set (mem_readonly w) then Some (SystemError ''EACCES'')
      else None)"

definition mem_access :: "string \<Rightarrow> memfs \<Rightarrow> (error + unit) \<times> memfs" where
  "mem_access p w =
     (if mem_is_file w p \<or> mem_is_dir w p then (Inr (), w)
      else (Inl (SystemError ''ENOENT''), w))"

text \<open>The prefixes of a path that end before a separator, and the path itself.\<close>

fun path_prefixes :: "string \<Rightarrow> string \<Rightarrow> string list" where
  "path_prefixes acc [] = (if acc = [] \<or> last acc = CHR ''/'' then [] else [acc])"
| "path_prefixes acc (c # cs) =
     (if c = CHR ''/'' \<and> acc \<noteq> [] \<and> last acc \<noteq> CHR ''/'' then [acc] else [])
       @ path_prefixes (acc @ [c]) cs"

fun mem_mkdirs :: "string list \<Rightarrow> memfs \<Rightarrow> (error + unit) \<times> memfs" where
  "mem_mkdirs [] w = (Inr (), w)"
| "mem_mkdirs (d # ds) w =
     (if mem_is_file w d
      then (Inl (SystemError (if ds = [] then ''EEXIST'' else ''ENOTDIR'')), w)
      else if mem_is_dir w d then mem_mkdirs ds w
      else if posix_dirname d \<in> set (mem_readonly w) then (Inl (SystemError ''EACCES''), w)
      else mem_mkdirs ds (w\<lparr>mem_dirs := mem_dirs w @ [d]\<rparr>))"

definition mem_mkdir :: "string \<Rightarrow> memfs \<Rightarrow> (error + unit) \<times> memfs" where
  "mem_mkdir p w = mem_mkdirs (path_prefixes [] p) w"

definition mem_copyFile :: "string \<Rightarrow> string \<Rightarrow> memfs \<Rightarrow> (error + unit) \<times> memfs" where
  "mem_copyFile src dst w =
     (case map_of (mem_files w) src of
        None \<Rightarrow> (Inl (SystemError ''ENOENT''), w)
      | Some f \<Rightarrow>
          if mem_is_dir w dst then (Inl (SystemError ''EISDIR''), w)
          else if mem_is_file w dst
          then (Inr (), w\<lparr>mem_files := AList.update dst f (mem_files w)\<rparr>)
          else
            (case mem_create_check w dst of
               Some e \<Rightarrow> (Inl e, w)
             | None \<Rightarrow> (Inr (), w\<lparr>mem_files := AList.update dst f (mem_files w)\<rparr>)))"

text \<open>A new file gets mode \<open>0o644 = 420\<close>; an existing one keeps its mode.\<close>

definition mem_writeFile :: "string \<Rightarrow> string \<Rightarrow> memfs \<Rightarrow> (error + unit) \<times> memfs" where
  "mem_writeFile p content w =
     (if mem_is_dir w p then (Inl (SystemError ''EISDIR''), w)
      else
        (case map_of (mem_files w) p of
           Some (old, mode) \<Rightarrow>
             (Inr (), w\<lparr>mem_files := AList.update p (content, mode) (mem_files w)\<rparr>)
         | None \<Rightarrow>
             (case mem_create_check w p of
                Some e \<Rightarrow> (Inl e, w)
              | None \<Rightarrow>
                  (Inr (), w\<lparr>mem_files := AList.update p (content, 420) (mem_files w)\<rparr>))))"

text \<open>Only a numeric mode is accepted by this instance.\<close>

definition mem_chmod :: "string \<Rightarrow> jsval \<Rightarrow> memfs \<Rightarrow> (error + unit) \<times> memfs" where
  "mem_chmod p m w =
     (case m of
        JNum n \<Rightarrow>
          (case map_of (mem_files w) p of
             Some (content, mode) \<Rightarrow>
               (Inr (), w\<lparr>mem_files := AList.update p (content, n) (mem_files w)\<rparr>)
           | None \<Rightarrow>
               if mem_is_dir w p then (Inr (), w) else (Inl (SystemError ''ENOENT''), w))
      | _ \<Rightarrow> (Inl (TypeError ''ERR_INVALID_ARG_TYPE''), w))"

definition mem_stat :: "string \<Rightarrow> memfs \<Rightarrow> (error + stats) \<times> memfs" where
  "mem_stat p w =
     (case map_of (mem_files w) p of
        Some (content, mode) \<Rightarrow>
          (Inr \<lparr>st_isFile = True, st_isDirectory = False, st_mode = mode,
                st_size = length content\<rparr>, w)
      | None \<Rightarrow>
          if mem_is_dir w p
          then (Inr \<lparr>st_isFile = False, st_isDirectory = True, st_mode = 493, st_size = 0\<rparr>, w)
          else (Inl (SystemError ''ENOENT''), w))"

definition posix :: "string \<Rightarrow> memfs platform" where
  "posix home =
     \<lparr>os_homedir = home, path_join = posix_join, path_dirname = posix_dirname,
      date_toISOString = mem_clock, sys_mkdir = mem_mkdir, sys_access = mem_access,
      sys_copyFile = mem_copyFile, sys_writeFile = mem_writeFile, sys_chmod = mem_chmod,
      sys_stat = mem_stat\<rparr>"

text \<open>The content of a file of the in-memory file system.\<close>

definition mem_content :: "memfs \<Rightarrow> string \<Rightarrow> string option" where
  "mem_content w p = map_option fst (map_of (mem_files w) p)"

definition start :: "'w \<Rightarrow> 'w state" where
  "start w = \<lparr>world = w, trace = []\<rparr>"

subsection \<open>Specification-side notions\<close>

text \<open>
  The merge of option records as the specification words it: a field the caller
  supplied wins, any other field comes from the defaults.
\<close>

definition shallow_merge :: "js_object \<Rightarrow> js_object \<Rightarrow> js_object" where
  "shallow_merge defaults supplied =
     (\<lambda>k. case supplied k of Some v \<Rightarrow> Some v | None \<Rightarrow> defaults k)"

definition config_defaults :: js_object where
  "config_defaults = [''backup'' \<mapsto> JBool True, ''permissions'' \<mapsto> JNum 384]"

text \<open>
  The directory the specification schedules for one entry of the paths object: the
  parent of the expanded path when the key equals a file marker up to letter case,
  the expanded path otherwise.
\<close>

definition scheduled_dir :: "'w platform \<Rightarrow> string \<times> string \<Rightarrow> string" where
  "scheduled_dir P entry =
     (if \<exists>m \<in> set fileKeys. toLowerCase (fst entry) = toLowerCase m
      then path_dirname P (expandHome P (snd entry))
      else expandHome P (snd entry))"

text \<open>
  A segment of a path in normal form: not empty, without separator, and neither \<open>.\<close>
  nor \<open>..\<close>.
\<close>

definition clean_segment :: "string \<Rightarrow> bool" where
  "clean_segment seg =
     (seg \<noteq> [] \<and> CHR ''/'' \<notin> set seg \<and> seg \<noteq> ''.'' \<and> seg \<noteq> ''..'')"

subsection \<open>Concrete worlds\<close>

text \<open>
  A configuration file that its owner may rewrite, in a directory where the owner may
  not create entries (a file writable by group in a directory owned by root, say).
\<close>

definition readonly_dir_fs :: memfs where
  "readonly_dir_fs =
     \<lparr>mem_files = [(''/etc/app/config'', ''old'', 420)],
      mem_dirs = [''/etc'', ''/etc/app''],
      mem_readonly = [''/etc/app''],
      mem_clock = ''2026-01-26T12:34:56.789Z''\<rparr>"

text \<open>A home directory with one configuration file.\<close>

definition home_fs :: memfs where
  "home_fs =
     \<lparr>mem_files = [(''/home/u/.muttrc'', ''set editor=vi'', 420)],
      mem_dirs = [''/home'', ''/home/u''],
      mem_readonly = [],
      mem_clock = ''2026-01-26T12:34:56.789Z''\<rparr>"

text \<open>
  The same home directory where a backup of an older content, taken at the very instant
  the clock shows, is already there.
\<close>

definition collision_fs :: memfs where
  "collision_fs =
     \<lparr>mem_files = [(''/home/u/.muttrc'', ''set editor=vi'', 420),
                   (''/home/u/.muttrc.backup-2026-01-26T12-34-56-789Z'', ''older'', 420)],
      mem_dirs = [''/home'', ''/home/u''],
      mem_readonly = [],
      mem_clock = ''2026-01-26T12:34:56.789Z''\<rparr>"


section \<open>Properties\<close>

subsection \<open>Auxiliary facts\<close>

lemma invoke_split:
  "invoke c f s = (fst (f (world s)),
     \<lparr>world = snd (f (world s)), trace = trace s @ [(c, outcome (fst (f (world s))))]\<rparr>)"
  by (simp add: invoke_def split: prod.splits)

lemma take2_home: "take 2 p = ''~/'' \<longleftrightarrow> (\<exists>t. p = ''~/'' @ t)"
proof
  assume "take 2 p = ''~/''"
  then have "p = ''~/'' @ drop 2 p" by (metis append_take_drop_id)
  then show "\<exists>t. p = ''~/'' @ t" ..
next
  assume "\<exists>t. p = ''~/'' @ t"
  then show "take 2 p = ''~/''" by auto
qed

text \<open>No error ever leaves \<open>backupFile\<close>: the \<^verbatim>\<open>catch\<close> turns each one into \<^verbatim>\<open>null\<close>.\<close>

lemma backupFile_never_raises: "\<exists>r. fst (backupFile P filepath s) = Inr r"
  by (simp add: backupFile_def Let_def fs_access_def fs_copyFile_def invoke_split
      split: sum.splits)

lemma backupFile_copy_error:
  assumes "sys_access P (expandHome P filepath) (world s) = (Inr (), w1)"
    and "sys_copyFile P (expandHome P filepath)
           (expandHome P filepath @ ''.backup-''
              @ replace_colon_period (date_toISOString P w1)) w1 = (Inl e, w2)"
  shows "fst (backupFile P filepath s) = Inr None"
  using assms
  by (simp add: backupFile_def Let_def fs_access_def fs_copyFile_def invoke_def)

text \<open>The fields of the result of a \<open>writeFile\<close> that returned.\<close>

lemma writeFile_result:
  assumes "writeFile P filepath content options s = (Inr r, s')"
  shows "path r = expandHome P filepath"
    and "created r = (backup r = None)"
    and "\<not> truthy (get_prop options ''backup'') \<Longrightarrow> backup r = None"
    and "truthy (get_prop options ''backup'') \<Longrightarrow>
           fst (backupFile P (expandHome P filepath)
                  (snd (ensureDirectory P (path_dirname P (expandHome P filepath)) s)))
             = Inr (backup r)"
proof -
  show "path r = expandHome P filepath"
    using assms
    by (auto simp: writeFile_def Let_def split: prod.splits sum.splits if_splits)
  show "created r = (backup r = None)"
    using assms
    by (auto simp: writeFile_def Let_def split: prod.splits sum.splits if_splits)
  show "\<not> truthy (get_prop options ''backup'') \<Longrightarrow> backup r = None"
    using assms
    by (auto simp: writeFile_def Let_def split: prod.splits sum.splits if_splits)
  show "truthy (get_prop options ''backup'') \<Longrightarrow>
           fst (backupFile P (expandHome P filepath)
                  (snd (ensureDirectory P (path_dirname P (expandHome P filepath)) s)))
             = Inr (backup r)"
    using assms
    by (auto simp: writeFile_def Let_def split: prod.splits sum.splits if_splits)
qed

text \<open>
  The steps of \<open>writeFile\<close> that do propagate: the directory creation comes first on
  every call, and an error of the directory creation, of the content write or of the
  permission set ends the call with that error, in the state the failing step left.
\<close>

lemma writeFile_mkdir_first:
  "\<exists>r rest. trace (snd (writeFile P filepath content options s))
     = trace s @ (Mkdir (expandHome P (path_dirname P (expandHome P filepath))), r) # rest"
  by (auto simp: writeFile_def ensureDirectory_def backupFile_def Let_def fs_mkdir_def
      fs_access_def fs_copyFile_def fs_writeFile_def fs_chmod_def invoke_split
      split: sum.splits option.splits)

lemma writeFile_mkdir_error:
  "ensureDirectory P (path_dirname P (expandHome P filepath)) s = (Inl e, s1) \<Longrightarrow>
   writeFile P filepath content options s = (Inl e, s1)"
  by (simp add: writeFile_def Let_def)

lemma writeFile_write_error:
  assumes "ensureDirectory P (path_dirname P (expandHome P filepath)) s = (Inr d, s1)"
    and "(if truthy (get_prop options ''backup'')
          then backupFile P (expandHome P filepath) s1 else (Inr None, s1)) = (Inr b, s2)"
    and "fs_writeFile P (expandHome P filepath) content s2 = (Inl e, s3)"
  shows "writeFile P filepath content options s = (Inl e, s3)"
  using assms by (simp add: writeFile_def Let_def)

lemma writeFile_chmod_error:
  assumes "ensureDirectory P (path_dirname P (expandHome P filepath)) s = (Inr d, s1)"
    and "(if truthy (get_prop options ''backup'')
          then backupFile P (expandHome P filepath) s1 else (Inr None, s1)) = (Inr b, s2)"
    and "fs_writeFile P (expandHome P filepath) content s2 = (Inr (), s3)"
    and "get_prop options ''permissions'' \<noteq> JUndefined"
    and "fs_chmod P (expandHome P filepath) (get_prop options ''permissions'') s3 = (Inl e, s4)"
  shows "writeFile P filepath content options s = (Inl e, s4)"
  using assms by (simp add: writeFile_def Let_def)







text \<open>\<open>Object_entries\<close>: a rearrangement that keeps the entries.\<close>

lemma Object_entries_set: "set (Object_entries obj) = set obj"
  by (auto simp: Object_entries_def)




lemmas Object_entries_eval =
  Object_entries_def is_array_index_def is_digit_def decimal_value_def

text \<open>
  \<open>posix_normalize\<close> on an absolute path of clean segments, and on a path with a
  trailing separator.
\<close>

(* path lemmas *)
lemma split_slash_clean: "CHR ''/'' \<notin> set x \<Longrightarrow> split_slash cur x = [cur @ x]"
  by (induction x arbitrary: cur) auto

lemma split_slash_clean_sep:
  "CHR ''/'' \<notin> set x \<Longrightarrow> split_slash cur (x @ CHR ''/'' # r) = (cur @ x) # split_slash [] r"
  by (induction x arbitrary: cur) auto

lemma split_join_slash:
  "segs \<noteq> [] \<Longrightarrow> \<forall>seg \<in> set segs. clean_segment seg \<Longrightarrow>
   split_slash [] (join_slash segs) = segs"
proof (induction segs rule: join_slash.induct)
  case 1
  then show ?case by simp
next
  case (2 x)
  then show ?case by (simp add: clean_segment_def split_slash_clean)
next
  case (3 x y ys)
  then show ?case
    using split_slash_clean_sep [of x "[]" "join_slash (y # ys)"]
    by (simp add: clean_segment_def)
qed

lemma norm_segs_clean:
  "\<forall>seg \<in> set segs. clean_segment seg \<Longrightarrow> norm_segs allowAbove acc segs = rev acc @ segs"
  by (induction segs arbitrary: acc) (auto simp: clean_segment_def)

lemma join_slash_nonempty:
  "segs \<noteq> [] \<Longrightarrow> \<forall>seg \<in> set segs. clean_segment seg \<Longrightarrow> join_slash segs \<noteq> []"
  by (induction segs rule: join_slash.induct) (auto simp: clean_segment_def)

lemma last_join_slash:
  "segs \<noteq> [] \<Longrightarrow> \<forall>seg \<in> set segs. clean_segment seg \<Longrightarrow>
   last (join_slash segs) \<noteq> CHR ''/''"
proof (induction segs rule: join_slash.induct)
  case 1
  then show ?case by simp
next
  case (2 x)
  then have "x \<noteq> []" and "CHR ''/'' \<notin> set x" by (auto simp: clean_segment_def)
  then have "last x \<in> set x" by (rule_tac last_in_set)
  with \<open>CHR ''/'' \<notin> set x\<close> show ?case by auto
next
  case (3 x y ys)
  then have "join_slash (y # ys) \<noteq> []"
    using join_slash_nonempty [of "y # ys"] by simp
  with 3 show ?case by simp
qed

lemma posix_normalize_clean:
  assumes "segs \<noteq> []" and "\<forall>seg \<in> set segs. clean_segment seg"
  shows "posix_normalize (''/'' @ join_slash segs) = ''/'' @ join_slash segs"
proof -
  have split: "split_slash [] (join_slash segs) = segs"
    using split_join_slash [OF assms] .
  have norm: "norm_segs False [] segs = segs"
    using norm_segs_clean [OF assms(2), of False "[]"] by simp
  have ne: "join_slash segs \<noteq> []"
    using join_slash_nonempty [OF assms] .
  have lst: "last (join_slash segs) \<noteq> CHR ''/''"
    using last_join_slash [OF assms] .
  show ?thesis
    using ne lst by (simp add: posix_normalize_def Let_def split norm)
qed

lemma posix_normalize_trailing:
  "home \<noteq> [] \<Longrightarrow> last home = CHR ''/'' \<Longrightarrow> last (posix_normalize home) = CHR ''/''"
  by (simp add: posix_normalize_def Let_def)

lemma expandHome_posix_tilde:
  "expandHome (posix home) ''~'' = (if home = [] then ''.'' else posix_normalize home)"
  by (simp add: expandHome_def posix_def posix_join_def)

lemma set_add_set: "set (set_add dirs d) = insert d (set dirs)"
  by (auto simp: set_add_def)

lemma set_add_distinct: "distinct dirs \<Longrightarrow> distinct (set_add dirs d)"
  by (simp add: set_add_def)

lemma fileKeys_lower: "m \<in> set fileKeys \<Longrightarrow> toLowerCase m = m"
  by (auto simp: fileKeys_def toLowerCase_def lower_char_def)

lemma collect_dirs_set:
  "set (collect_dirs P paths dirs) = set dirs \<union> scheduled_dir P ` set paths"
proof (induction paths arbitrary: dirs)
  case Nil
  show ?case by simp
next
  case (Cons entry paths)
  obtain key filepath where entry: "entry = (key, filepath)" by (cases entry)
  have key: "(toLowerCase key \<in> set fileKeys)
      = (\<exists>m \<in> set fileKeys. toLowerCase key = toLowerCase m)"
    using fileKeys_lower by force
  show ?case
    unfolding entry
    by (simp add: Cons.IH Let_def set_add_set scheduled_dir_def key del: set_simps)
       (auto simp: scheduled_dir_def)
qed

lemma collect_dirs_distinct:
  "distinct dirs \<Longrightarrow> distinct (collect_dirs P paths dirs)"
proof (induction paths arbitrary: dirs)
  case Nil
  then show ?case by simp
next
  case (Cons entry paths)
  obtain key filepath where entry: "entry = (key, filepath)" by (cases entry)
  show ?case
    unfolding entry using Cons.prems
    by (simp add: Let_def Cons.IH set_add_distinct)
qed

subsection \<open>Path expansion\<close>

text \<open>
  C6 (amended). \<open>expandHome\<close> sends the marker \<open>~\<close> to \<^verbatim>\<open>join(home, "")\<close>, sends
  \<open>~/tail\<close> to \<^verbatim>\<open>join(home, tail)\<close>, and returns every other path unchanged. With
  the POSIX \<^verbatim>\<open>join\<close>, \<open>~\<close> goes to the home directory in normal form: for an absolute
  home directory made of clean segments this is the home directory itself, and it has
  no trailing separator; a home directory given with a trailing separator keeps it.
\<close>

theorem expandHome_cases:
  "expandHome P ''~'' = path_join P (os_homedir P) []
   \<and> expandHome P (''~/'' @ tail) = path_join P (os_homedir P) tail
   \<and> ((\<forall>t. p \<noteq> ''~/'' @ t) \<and> p \<noteq> ''~'' \<longrightarrow> expandHome P p = p)
   \<and> (home \<noteq> [] \<longrightarrow> expandHome (posix home) ''~'' = posix_normalize home)
   \<and> (segs \<noteq> [] \<and> (\<forall>seg \<in> set segs. clean_segment seg) \<longrightarrow>
        expandHome (posix (''/'' @ join_slash segs)) ''~'' = ''/'' @ join_slash segs
        \<and> last (expandHome (posix (''/'' @ join_slash segs)) ''~'') \<noteq> CHR ''/'')
   \<and> (home \<noteq> [] \<and> last home = CHR ''/'' \<longrightarrow>
        last (expandHome (posix home) ''~'') = CHR ''/'')"
proof -
  have a: "expandHome P ''~'' = path_join P (os_homedir P) []"
    by (simp add: expandHome_def)
  have b: "expandHome P (''~/'' @ tail) = path_join P (os_homedir P) tail"
    by (simp add: expandHome_def)
  have c: "(\<forall>t. p \<noteq> ''~/'' @ t) \<and> p \<noteq> ''~'' \<longrightarrow> expandHome P p = p"
    using take2_home [of p] by (auto simp: expandHome_def)
  have d: "home \<noteq> [] \<longrightarrow> expandHome (posix home) ''~'' = posix_normalize home"
    by (simp add: expandHome_posix_tilde)
  have e: "segs \<noteq> [] \<and> (\<forall>seg \<in> set segs. clean_segment seg) \<longrightarrow>
        expandHome (posix (''/'' @ join_slash segs)) ''~'' = ''/'' @ join_slash segs
        \<and> last (expandHome (posix (''/'' @ join_slash segs)) ''~'') \<noteq> CHR ''/''"
  proof
    assume clean: "segs \<noteq> [] \<and> (\<forall>seg \<in> set segs. clean_segment seg)"
    then have norm: "posix_normalize (''/'' @ join_slash segs) = ''/'' @ join_slash segs"
      using posix_normalize_clean by blast
    have ne: "join_slash segs \<noteq> []"
      using clean join_slash_nonempty by blast
    have lst: "last (join_slash segs) \<noteq> CHR ''/''"
      using clean last_join_slash by blast
    have eq: "expandHome (posix (''/'' @ join_slash segs)) ''~'' = ''/'' @ join_slash segs"
      using norm by (simp add: expandHome_posix_tilde)
    have "last (''/'' @ join_slash segs) \<noteq> CHR ''/''"
      using ne lst by simp
    with eq show "expandHome (posix (''/'' @ join_slash segs)) ''~'' = ''/'' @ join_slash segs
        \<and> last (expandHome (posix (''/'' @ join_slash segs)) ''~'') \<noteq> CHR ''/''"
      by simp
  qed
  have f: "home \<noteq> [] \<and> last home = CHR ''/'' \<longrightarrow>
        last (expandHome (posix home) ''~'') = CHR ''/''"
    by (simp add: expandHome_posix_tilde posix_normalize_trailing)
  from a b c d e f show ?thesis by blast
qed

theorem expandHome_cases_witness:
  "expandHome (posix ''/home/u'') ''~'' = ''/home/u''
   \<and> last (expandHome (posix ''/home/u'') ''~'') \<noteq> CHR ''/''
   \<and> expandHome (posix ''/home/u'') ''~/a/b'' = ''/home/u/a/b''
   \<and> ((\<forall>t. ''/absolute/path'' \<noteq> ''~/'' @ t) \<and> ''/absolute/path'' \<noteq> ''~'')
   \<and> expandHome (posix ''/home/u'') ''/absolute/path'' = ''/absolute/path''
   \<and> expandHome (posix ''/home/u/'') ''~'' = posix_normalize ''/home/u/''
   \<and> last (expandHome (posix ''/home/u/'') ''~'') = CHR ''/''"
proof -
  let ?P = "posix ''/home/u''"
  note main = expandHome_cases [of ?P "''a/b''" "''/absolute/path''" "''/home/u/''"
      "[''home'', ''u'']"]
  have home: "os_homedir ?P = ''/home/u''"
    by (simp add: posix_def)
  have segs: "''/'' @ join_slash [''home'', ''u''] = ''/home/u''"
    by simp
  have clean: "[''home'', ''u''] \<noteq> [] \<and> (\<forall>seg \<in> set [''home'', ''u'']. clean_segment seg)"
    by (simp add: clean_segment_def)
  have join1: "path_join ?P (os_homedir ?P) ''a/b'' = ''/home/u/a/b''"
    by code_simp
  have other: "(\<forall>t. ''/absolute/path'' \<noteq> ''~/'' @ t) \<and> ''/absolute/path'' \<noteq> ''~''"
    by simp
  have w1: "expandHome ?P ''~'' = ''/home/u''
      \<and> last (expandHome ?P ''~'') \<noteq> CHR ''/''"
    using main clean unfolding segs by blast
  have w2: "expandHome ?P ''~/a/b'' = ''/home/u/a/b''"
    using main join1 by simp
  have w3: "expandHome ?P ''/absolute/path'' = ''/absolute/path''"
    using main other by blast
  have trailing: "''/home/u/'' \<noteq> [] \<and> last ''/home/u/'' = CHR ''/''"
    by simp
  have w4: "expandHome (posix ''/home/u/'') ''~'' = posix_normalize ''/home/u/''"
    using main trailing by blast
  have w5: "last (expandHome (posix ''/home/u/'') ''~'') = CHR ''/''"
    using main trailing by blast
  from w1 w2 other w3 w4 w5 show ?thesis by blast
qed

text \<open>
  C6 as first stated fails: with the home directory \<open>/home/u/\<close> the marker expands to
  \<open>/home/u/\<close>, which ends with a separator, and with \<open>/home//u\<close> it expands to
  \<open>/home/u\<close>, which is not the string \<^verbatim>\<open>os.homedir()\<close> returns.
\<close>

theorem expandHome_keeps_trailing_separator:
  "os_homedir (posix ''/home/u/'') = ''/home/u/''
   \<and> expandHome (posix ''/home/u/'') ''~'' = ''/home/u/''
   \<and> last (expandHome (posix ''/home/u/'') ''~'') = CHR ''/''
   \<and> expandHome (posix ''/home//u'') ''~'' = ''/home/u''
   \<and> expandHome (posix ''/home//u'') ''~'' \<noteq> os_homedir (posix ''/home//u'')"
proof -
  have a: "os_homedir (posix ''/home/u/'') = ''/home/u/''"
    by (simp add: posix_def)
  have b: "expandHome (posix ''/home/u/'') ''~'' = ''/home/u/''"
    by code_simp
  have c: "expandHome (posix ''/home//u'') ''~'' = ''/home/u''"
    by code_simp
  have d: "os_homedir (posix ''/home//u'') = ''/home//u''"
    by (simp add: posix_def)
  from a b c d show ?thesis by simp
qed

subsection \<open>The backup maker\<close>

text \<open>
  C8. When the existence check on the expanded path fails, \<open>backupFile\<close> returns the
  absence marker (\<^verbatim>\<open>null\<close>) and no error, and the existence check is the only
  primitive it has called: nothing is copied, written or created.
\<close>

theorem backupFile_absent:
  "sys_access P (expandHome P filepath) (world s) = (Inl e, w') \<Longrightarrow>
   backupFile P filepath s =
     (Inr None, \<lparr>world = w', trace = trace s @ [(Access (expandHome P filepath), Some e)]\<rparr>)"
  by (simp add: backupFile_def Let_def fs_access_def invoke_def outcome_def)

theorem backupFile_absent_witness:
  "sys_access (posix ''/home/u'') (expandHome (posix ''/home/u'') ''~/.config/mutt/muttrc'')
       (world (start home_fs))
     = (Inl (SystemError ''ENOENT''), home_fs)
   \<and> backupFile (posix ''/home/u'') ''~/.config/mutt/muttrc'' (start home_fs)
     = (Inr None,
        \<lparr>world = home_fs,
         trace = [(Access ''/home/u/.config/mutt/muttrc'', Some (SystemError ''ENOENT''))]\<rparr>)"
proof -
  let ?P = "posix ''/home/u''"
  have missing: "sys_access ?P (expandHome ?P ''~/.config/mutt/muttrc'') (world (start home_fs))
     = (Inl (SystemError ''ENOENT''), home_fs)"
    by code_simp
  have expanded: "expandHome ?P ''~/.config/mutt/muttrc'' = ''/home/u/.config/mutt/muttrc''"
    by code_simp
  from backupFile_absent [OF missing] missing expanded
  show ?thesis by (simp add: start_def)
qed

text \<open>
  C4 (amended). When the existence check succeeds and the copy succeeds, \<open>backupFile\<close>
  returns the backup path: the expanded path, then the literal \<open>.backup-\<close>, then the
  ISO timestamp of the clock with every colon and period replaced by a hyphen. It has
  called exactly the existence check and one copy from the expanded path to the backup
  path. For a platform whose existence check leaves file contents alone and whose copy
  gives the destination the content of the source and changes nothing else, the file
  contents afterwards are those before with the backup path holding \<open>C\<close>: the
  original still holds \<open>C\<close>, the backup path differs from the original path, and the
  files afterwards are those before and the backup path. The backup is a new file when
  no file was at the backup path; otherwise no file is new and the file that was there
  is overwritten.
\<close>

theorem backupFile_copy:
  assumes access_ok: "sys_access P (expandHome P filepath) (world s) = (Inr (), w1)"
    and bp: "bp = expandHome P filepath @ ''.backup-''
               @ replace_colon_period (date_toISOString P w1)"
    and copy_ok: "sys_copyFile P (expandHome P filepath) bp w1 = (Inr (), w2)"
    and access_reads: "contents w1 = contents (world s)"
    and copy_copies: "contents w2 = (contents w1)(bp := contents w1 (expandHome P filepath))"
    and existing: "contents (world s) (expandHome P filepath) = Some C"
  shows "backupFile P filepath s =
           (Inr (Some bp),
            \<lparr>world = w2,
             trace = trace s @ [(Access (expandHome P filepath), None),
                                (CopyFile (expandHome P filepath) bp, None)]\<rparr>)
         \<and> bp = expandHome P filepath @ ''.backup-''
               @ map (\<lambda>c. if c = CHR '':'' \<or> c = CHR ''.'' then CHR ''-'' else c)
                   (date_toISOString P w1)
         \<and> contents w2 = (contents (world s))(bp \<mapsto> C)
         \<and> contents w2 (expandHome P filepath) = Some C
         \<and> bp \<noteq> expandHome P filepath
         \<and> dom (contents w2) = insert bp (dom (contents (world s)))
         \<and> dom (contents w2) - dom (contents (world s))
             = (if contents (world s) bp = None then {bp} else {})"
proof -
  have run: "backupFile P filepath s =
           (Inr (Some bp),
            \<lparr>world = w2,
             trace = trace s @ [(Access (expandHome P filepath), None),
                                (CopyFile (expandHome P filepath) bp, None)]\<rparr>)"
    using access_ok copy_ok
    by (simp add: backupFile_def Let_def fs_access_def fs_copyFile_def invoke_def
        outcome_def bp)
  have name: "bp = expandHome P filepath @ ''.backup-''
               @ map (\<lambda>c. if c = CHR '':'' \<or> c = CHR ''.'' then CHR ''-'' else c)
                   (date_toISOString P w1)"
    by (simp add: bp replace_colon_period_def)
  have neq: "bp \<noteq> expandHome P filepath"
    by (simp add: bp)
  have upd: "contents w2 = (contents (world s))(bp \<mapsto> C)"
    using access_reads copy_copies existing by simp
  have orig: "contents w2 (expandHome P filepath) = Some C"
    using upd neq existing by simp
  have doms: "dom (contents w2) = insert bp (dom (contents (world s)))"
    using upd by simp
  have new: "dom (contents w2) - dom (contents (world s))
             = (if contents (world s) bp = None then {bp} else {})"
    using doms by auto
  from run name neq upd orig doms new show ?thesis by blast
qed

theorem backupFile_copy_witness:
  "backupFile (posix ''/home/u'') ''~/.muttrc'' (start home_fs) =
     (Inr (Some ''/home/u/.muttrc.backup-2026-01-26T12-34-56-789Z''),
      \<lparr>world = home_fs\<lparr>mem_files :=
                 [(''/home/u/.muttrc'', ''set editor=vi'', 420),
                  (''/home/u/.muttrc.backup-2026-01-26T12-34-56-789Z'', ''set editor=vi'', 420)]\<rparr>,
       trace = [(Access ''/home/u/.muttrc'', None),
                (CopyFile ''/home/u/.muttrc''
                   ''/home/u/.muttrc.backup-2026-01-26T12-34-56-789Z'', None)]\<rparr>)
   \<and> mem_content home_fs ''/home/u/.muttrc'' = Some ''set editor=vi''
   \<and> mem_content home_fs ''/home/u/.muttrc.backup-2026-01-26T12-34-56-789Z'' = None
   \<and> dom (mem_content (home_fs\<lparr>mem_files :=
                 [(''/home/u/.muttrc'', ''set editor=vi'', 420),
                  (''/home/u/.muttrc.backup-2026-01-26T12-34-56-789Z'', ''set editor=vi'', 420)]\<rparr>))
       - dom (mem_content home_fs)
     = {''/home/u/.muttrc.backup-2026-01-26T12-34-56-789Z''}"
proof -
  let ?P = "posix ''/home/u''"
  let ?bp = "''/home/u/.muttrc.backup-2026-01-26T12-34-56-789Z''"
  let ?w2 = "home_fs\<lparr>mem_files :=
                 [(''/home/u/.muttrc'', ''set editor=vi'', 420),
                  (?bp, ''set editor=vi'', 420)]\<rparr>"
  have expanded: "expandHome ?P ''~/.muttrc'' = ''/home/u/.muttrc''"
    by code_simp
  have w0: "world (start home_fs) = home_fs"
    by (simp add: start_def)
  have tr0: "trace (start home_fs) = []"
    by (simp add: start_def)
  have access_ok: "sys_access ?P (expandHome ?P ''~/.muttrc'') (world (start home_fs))
      = (Inr (), home_fs)"
    by code_simp
  have bp: "?bp = expandHome ?P ''~/.muttrc'' @ ''.backup-''
               @ replace_colon_period (date_toISOString ?P home_fs)"
    by code_simp
  have copy_ok: "sys_copyFile ?P (expandHome ?P ''~/.muttrc'') ?bp home_fs = (Inr (), ?w2)"
    by code_simp
  have access_reads: "mem_content home_fs = mem_content (world (start home_fs))"
    by (simp add: w0)
  have copy_copies: "mem_content ?w2
      = (mem_content home_fs)(?bp := mem_content home_fs (expandHome ?P ''~/.muttrc''))"
    by (rule ext) (simp add: expanded mem_content_def home_fs_def)
  have existing: "mem_content (world (start home_fs)) (expandHome ?P ''~/.muttrc'')
      = Some ''set editor=vi''"
    by code_simp
  have absent: "mem_content (world (start home_fs)) ?bp = None"
    by code_simp
  note main = backupFile_copy [OF access_ok bp copy_ok access_reads copy_copies existing]
  have run: "backupFile ?P ''~/.muttrc'' (start home_fs) =
     (Inr (Some ?bp),
      \<lparr>world = ?w2,
       trace = [(Access ''/home/u/.muttrc'', None), (CopyFile ''/home/u/.muttrc'' ?bp, None)]\<rparr>)"
    using main [THEN conjunct1] by (simp add: expanded tr0)
  have "dom (mem_content ?w2) - dom (mem_content (world (start home_fs)))
      = (if mem_content (world (start home_fs)) ?bp = None then {?bp} else {})"
    by (rule main [THEN conjunct2, THEN conjunct2, THEN conjunct2, THEN conjunct2,
          THEN conjunct2, THEN conjunct2])
  moreover have nothing: "mem_content home_fs ?bp = None"
    using absent by (simp only: w0)
  ultimately have new: "dom (mem_content ?w2) - dom (mem_content home_fs) = {?bp}"
    by (simp only: w0 simp_thms if_True)
  have before: "mem_content home_fs ''/home/u/.muttrc'' = Some ''set editor=vi''"
    using existing by (simp only: w0 expanded)
  from run before nothing new show ?thesis by blast
qed

text \<open>
  C4 as first stated fails at a timestamp collision: in \<open>collision_fs\<close> a file is
  already at the backup path. The call succeeds and returns that path, the files
  afterwards are the files before, so no file is new, and the older backup is
  overwritten.
\<close>

theorem backupFile_overwrites_at_collision:
  "mem_content collision_fs ''/home/u/.muttrc'' = Some ''set editor=vi''
   \<and> mem_content collision_fs ''/home/u/.muttrc.backup-2026-01-26T12-34-56-789Z''
       = Some ''older''
   \<and> fst (backupFile (posix ''/home/u'') ''~/.muttrc'' (start collision_fs))
       = Inr (Some ''/home/u/.muttrc.backup-2026-01-26T12-34-56-789Z'')
   \<and> mem_files (world (snd (backupFile (posix ''/home/u'') ''~/.muttrc'' (start collision_fs))))
       = [(''/home/u/.muttrc'', ''set editor=vi'', 420),
          (''/home/u/.muttrc.backup-2026-01-26T12-34-56-789Z'', ''set editor=vi'', 420)]
   \<and> map fst (mem_files (world (snd (backupFile (posix ''/home/u'') ''~/.muttrc''
                                        (start collision_fs)))))
       = map fst (mem_files collision_fs)"
proof -
  let ?run = "backupFile (posix ''/home/u'') ''~/.muttrc'' (start collision_fs)"
  have a: "mem_content collision_fs ''/home/u/.muttrc'' = Some ''set editor=vi''"
    by code_simp
  have b: "mem_content collision_fs ''/home/u/.muttrc.backup-2026-01-26T12-34-56-789Z''
       = Some ''older''"
    by code_simp
  have c: "fst ?run = Inr (Some ''/home/u/.muttrc.backup-2026-01-26T12-34-56-789Z'')"
    by code_simp
  have d: "mem_files (world (snd ?run))
       = [(''/home/u/.muttrc'', ''set editor=vi'', 420),
          (''/home/u/.muttrc.backup-2026-01-26T12-34-56-789Z'', ''set editor=vi'', 420)]"
    by code_simp
  have e: "map fst (mem_files (world (snd ?run))) = map fst (mem_files collision_fs)"
    by code_simp
  from a b c d e show ?thesis by blast
qed

text \<open>
  C1. The claim fails on the code. In \<open>readonly_dir_fs\<close> the file \<open>/etc/app/config\<close>
  exists with content \<open>old\<close> and the copy to the backup path fails with \<open>EACCES\<close>.
  \<open>backupFile\<close> does not propagate that error: it returns the absence marker. A
  \<open>writeFile\<close> with \<^verbatim>\<open>backup: true\<close> then does not abort: it returns a result, the file
  holds the new content, and no backup exists.
\<close>

theorem backupFile_swallows_copy_error:
  "mem_content readonly_dir_fs ''/etc/app/config'' = Some ''old''
   \<and> sys_copyFile (posix ''/home/u'') ''/etc/app/config''
         ''/etc/app/config.backup-2026-01-26T12-34-56-789Z'' readonly_dir_fs
       = (Inl (SystemError ''EACCES''), readonly_dir_fs)
   \<and> backupFile (posix ''/home/u'') ''/etc/app/config'' (start readonly_dir_fs)
       = (Inr None,
          \<lparr>world = readonly_dir_fs,
           trace = [(Access ''/etc/app/config'', None),
                    (CopyFile ''/etc/app/config''
                       ''/etc/app/config.backup-2026-01-26T12-34-56-789Z'',
                     Some (SystemError ''EACCES''))]\<rparr>)
   \<and> fst (writeFile (posix ''/home/u'') ''/etc/app/config'' ''new''
             [''backup'' \<mapsto> JBool True] (start readonly_dir_fs))
       = Inr \<lparr>path = ''/etc/app/config'', backup = None, created = True\<rparr>
   \<and> mem_files (world (snd (writeFile (posix ''/home/u'') ''/etc/app/config'' ''new''
                  [''backup'' \<mapsto> JBool True] (start readonly_dir_fs))))
       = [(''/etc/app/config'', ''new'', 420)]"
proof -
  let ?P = "posix ''/home/u''"
  let ?run = "writeFile ?P ''/etc/app/config'' ''new''
                [''backup'' \<mapsto> JBool True] (start readonly_dir_fs)"
  have a: "mem_content readonly_dir_fs ''/etc/app/config'' = Some ''old''"
    by code_simp
  have b: "sys_copyFile ?P ''/etc/app/config''
         ''/etc/app/config.backup-2026-01-26T12-34-56-789Z'' readonly_dir_fs
       = (Inl (SystemError ''EACCES''), readonly_dir_fs)"
    by code_simp
  have c: "backupFile ?P ''/etc/app/config'' (start readonly_dir_fs)
       = (Inr None,
          \<lparr>world = readonly_dir_fs,
           trace = [(Access ''/etc/app/config'', None),
                    (CopyFile ''/etc/app/config''
                       ''/etc/app/config.backup-2026-01-26T12-34-56-789Z'',
                     Some (SystemError ''EACCES''))]\<rparr>)"
    by code_simp
  have d: "fst ?run = Inr \<lparr>path = ''/etc/app/config'', backup = None, created = True\<rparr>"
    by code_simp
  have e: "mem_files (world (snd ?run)) = [(''/etc/app/config'', ''new'', 420)]"
    by code_simp
  from a b c d e show ?thesis by blast
qed

subsection \<open>The safe file writer\<close>

text \<open>
  C2. The claim fails on the code for a pre-existing file. In \<open>readonly_dir_fs\<close> the
  target exists, the call asks for a backup and succeeds, and the result says
  \<open>created = True\<close> with an absent backup. (The general part of the claim holds:
  \<open>writeFile_result\<close>.)
\<close>

theorem writeFile_created_for_existing_file:
  "mem_is_file readonly_dir_fs ''/etc/app/config''
   \<and> truthy (get_prop [''backup'' \<mapsto> JBool True, ''permissions'' \<mapsto> JNum 384] ''backup'')
   \<and> fst (writeFile (posix ''/home/u'') ''/etc/app/config'' ''new''
             [''backup'' \<mapsto> JBool True, ''permissions'' \<mapsto> JNum 384] (start readonly_dir_fs))
       = Inr \<lparr>path = ''/etc/app/config'', backup = None, created = True\<rparr>"
proof -
  have a: "mem_is_file readonly_dir_fs ''/etc/app/config''"
    by code_simp
  have b: "truthy (get_prop [''backup'' \<mapsto> JBool True, ''permissions'' \<mapsto> JNum 384]
             ''backup'')"
    by (simp add: get_prop_def)
  have c: "fst (writeFile (posix ''/home/u'') ''/etc/app/config'' ''new''
             [''backup'' \<mapsto> JBool True, ''permissions'' \<mapsto> JNum 384] (start readonly_dir_fs))
       = Inr \<lparr>path = ''/etc/app/config'', backup = None, created = True\<rparr>"
    by code_simp
  from a b c show ?thesis by blast
qed

text \<open>
  C3. The order of the steps is as claimed, but a failure of the backup step does not
  abort the rest. In \<open>readonly_dir_fs\<close> the primitives called are, in this order: the
  directory creation, the existence check, the copy, which fails with \<open>EACCES\<close>, and
  then all the same the content write and the permission set; the call returns a result
  and no error.
\<close>

theorem writeFile_continues_after_failed_backup:
  "trace (snd (writeFile (posix ''/home/u'') ''/etc/app/config'' ''new''
                 [''backup'' \<mapsto> JBool True, ''permissions'' \<mapsto> JNum 384]
                 (start readonly_dir_fs)))
     = [(Mkdir ''/etc/app'', None),
        (Access ''/etc/app/config'', None),
        (CopyFile ''/etc/app/config'' ''/etc/app/config.backup-2026-01-26T12-34-56-789Z'',
         Some (SystemError ''EACCES'')),
        (WriteFile ''/etc/app/config'' ''new'', None),
        (Chmod ''/etc/app/config'' (JNum 384), None)]
   \<and> fst (writeFile (posix ''/home/u'') ''/etc/app/config'' ''new''
             [''backup'' \<mapsto> JBool True, ''permissions'' \<mapsto> JNum 384]
             (start readonly_dir_fs))
     = Inr \<lparr>path = ''/etc/app/config'', backup = None, created = True\<rparr>
   \<and> mem_files (world (snd (writeFile (posix ''/home/u'') ''/etc/app/config'' ''new''
                 [''backup'' \<mapsto> JBool True, ''permissions'' \<mapsto> JNum 384]
                 (start readonly_dir_fs))))
     = [(''/etc/app/config'', ''new'', 384)]"
proof -
  let ?run = "writeFile (posix ''/home/u'') ''/etc/app/config'' ''new''
                 [''backup'' \<mapsto> JBool True, ''permissions'' \<mapsto> JNum 384]
                 (start readonly_dir_fs)"
  have a: "trace (snd ?run)
     = [(Mkdir ''/etc/app'', None),
        (Access ''/etc/app/config'', None),
        (CopyFile ''/etc/app/config'' ''/etc/app/config.backup-2026-01-26T12-34-56-789Z'',
         Some (SystemError ''EACCES'')),
        (WriteFile ''/etc/app/config'' ''new'', None),
        (Chmod ''/etc/app/config'' (JNum 384), None)]"
    by code_simp
  have b: "fst ?run = Inr \<lparr>path = ''/etc/app/config'', backup = None, created = True\<rparr>"
    by code_simp
  have c: "mem_files (world (snd ?run)) = [(''/etc/app/config'', ''new'', 384)]"
    by code_simp
  from a b c show ?thesis by blast
qed

subsection \<open>Batches\<close>




text \<open>
  C5. \<open>writeConfigFiles\<close> is \<open>writeFiles\<close> run with the shallow merge of the caller's
  options over the defaults \<^verbatim>\<open>backup: true\<close>, \<^verbatim>\<open>permissions: 0o600\<close>: each of the two
  fields has the caller's value when the caller supplied the field, the default otherwise.
\<close>

theorem writeConfigFiles_merge:
  "writeConfigFiles P files options s
     = writeFiles P files (shallow_merge config_defaults options) s
   \<and> get_prop (shallow_merge config_defaults options) ''backup''
     = (case options ''backup'' of Some v \<Rightarrow> v | None \<Rightarrow> JBool True)
   \<and> get_prop (shallow_merge config_defaults options) ''permissions''
     = (case options ''permissions'' of Some v \<Rightarrow> v | None \<Rightarrow> JNum 384)"
proof -
  have "spread config_defaults options = shallow_merge config_defaults options"
    by (rule ext) (simp add: spread_def shallow_merge_def map_add_def)
  then have "writeConfigFiles P files options s
     = writeFiles P files (shallow_merge config_defaults options) s"
    by (simp add: writeConfigFiles_def config_defaults_def)
  moreover have "get_prop (shallow_merge config_defaults options) ''backup''
     = (case options ''backup'' of Some v \<Rightarrow> v | None \<Rightarrow> JBool True)"
    by (simp add: get_prop_def shallow_merge_def config_defaults_def split: option.splits)
  moreover have "get_prop (shallow_merge config_defaults options) ''permissions''
     = (case options ''permissions'' of Some v \<Rightarrow> v | None \<Rightarrow> JNum 384)"
    by (simp add: get_prop_def shallow_merge_def config_defaults_def split: option.splits)
  ultimately show ?thesis by simp
qed

theorem writeConfigFiles_merge_witness:
  "writeConfigFiles (posix ''/home/u'') [(''~/.muttrc'', ''set editor=vim'')]
       [''backup'' \<mapsto> JBool False] (start home_fs)
     = writeFiles (posix ''/home/u'') [(''~/.muttrc'', ''set editor=vim'')]
         (shallow_merge config_defaults [''backup'' \<mapsto> JBool False]) (start home_fs)
   \<and> get_prop (shallow_merge config_defaults [''backup'' \<mapsto> JBool False]) ''backup''
     = JBool False
   \<and> get_prop (shallow_merge config_defaults [''backup'' \<mapsto> JBool False]) ''permissions''
     = JNum 384"
  using writeConfigFiles_merge [of "posix ''/home/u''" "[(''~/.muttrc'', ''set editor=vim'')]"
      "[''backup'' \<mapsto> JBool False]" "start home_fs"]
  by simp

subsection \<open>Existence and stats\<close>

text \<open>
  C10. \<open>exists\<close> and \<open>getStats\<close> never raise: each always returns a value, and
  whatever error the underlying \<^verbatim>\<open>fs.access\<close> or \<^verbatim>\<open>fs.stat\<close> fails with (not-found,
  permission, any other), the result is \<open>false\<close>, respectively \<^verbatim>\<open>null\<close>; the error
  itself is not visible in the result.
\<close>

theorem exists_getStats_total:
  "(\<exists>b. fst (exists_path P filepath s) = Inr b)
   \<and> (\<exists>r. fst (getStats P filepath s) = Inr r)
   \<and> (\<forall>e w'. sys_access P (expandHome P filepath) (world s) = (Inl e, w')
        \<longrightarrow> fst (exists_path P filepath s) = Inr False)
   \<and> (\<forall>e w'. sys_stat P (expandHome P filepath) (world s) = (Inl e, w')
        \<longrightarrow> fst (getStats P filepath s) = Inr None)"
proof -
  have a: "\<exists>b. fst (exists_path P filepath s) = Inr b"
    by (auto simp: exists_path_def Let_def fs_access_def invoke_split split: sum.splits)
  have b: "\<exists>r. fst (getStats P filepath s) = Inr r"
    by (auto simp: getStats_def Let_def fs_stat_def invoke_split split: sum.splits)
  have c: "\<forall>e w'. sys_access P (expandHome P filepath) (world s) = (Inl e, w')
        \<longrightarrow> fst (exists_path P filepath s) = Inr False"
    by (simp add: exists_path_def Let_def fs_access_def invoke_def)
  have d: "\<forall>e w'. sys_stat P (expandHome P filepath) (world s) = (Inl e, w')
        \<longrightarrow> fst (getStats P filepath s) = Inr None"
    by (simp add: getStats_def Let_def fs_stat_def invoke_def)
  from a b c d show ?thesis by blast
qed

theorem exists_getStats_total_witness:
  "sys_access (posix ''/home/u'') (expandHome (posix ''/home/u'') ''~/nothing'')
       (world (start home_fs))
     = (Inl (SystemError ''ENOENT''), home_fs)
   \<and> sys_stat (posix ''/home/u'') (expandHome (posix ''/home/u'') ''~/nothing'')
       (world (start home_fs))
     = (Inl (SystemError ''ENOENT''), home_fs)
   \<and> fst (exists_path (posix ''/home/u'') ''~/nothing'' (start home_fs)) = Inr False
   \<and> fst (getStats (posix ''/home/u'') ''~/nothing'' (start home_fs)) = Inr None"
proof -
  let ?P = "posix ''/home/u''"
  have a: "sys_access ?P (expandHome ?P ''~/nothing'') (world (start home_fs))
     = (Inl (SystemError ''ENOENT''), home_fs)"
    by code_simp
  have b: "sys_stat ?P (expandHome ?P ''~/nothing'') (world (start home_fs))
     = (Inl (SystemError ''ENOENT''), home_fs)"
    by code_simp
  note main = exists_getStats_total [of ?P "''~/nothing''" "start home_fs"]
  have c: "fst (exists_path ?P ''~/nothing'' (start home_fs)) = Inr False"
    using main a by blast
  have d: "fst (getStats ?P ''~/nothing'' (start home_fs)) = Inr None"
    using main b by blast
  from a b c d show ?thesis by blast
qed

subsection \<open>The paths-object adapter\<close>

text \<open>
  C9. \<open>ensureDirectoriesFromPaths\<close> hands to \<open>ensureDirectories\<close> a list without
  duplicates whose elements are exactly the scheduled directories of the entries: for
  an entry whose key equals \<open>accountmuttrc\<close> or \<open>mainmuttrc\<close> up to letter case, the
  parent directory of the expanded path; for any other entry, the expanded path.
\<close>

theorem ensureDirectoriesFromPaths_schedule:
  "ensureDirectoriesFromPaths P paths s
     = ensureDirectories P (collect_dirs P (Object_entries paths) []) s
   \<and> distinct (collect_dirs P (Object_entries paths) [])
   \<and> set (collect_dirs P (Object_entries paths) []) = scheduled_dir P ` set paths"
  by (simp add: ensureDirectoriesFromPaths_def collect_dirs_set collect_dirs_distinct
      Object_entries_set)

theorem ensureDirectoriesFromPaths_schedule_witness:
  "collect_dirs (posix ''/home/u'')
       (Object_entries
         [(''accountMuttrc'', ''~/.config/mutt/accounts/me.muttrc''),
          (''mainMuttrc'', ''~/.config/mutt/muttrc''),
          (''ACCOUNTMUTTRC'', ''~/.config/mutt/accounts/you.muttrc''),
          (''cacheHeaders'', ''~/.cache/mutt/headers''),
          (''accounts'', ''~/.config/mutt/accounts'')]) []
     = [''/home/u/.config/mutt/accounts'', ''/home/u/.config/mutt'',
        ''/home/u/.cache/mutt/headers'']
   \<and> scheduled_dir (posix ''/home/u'') `
       {(''accountMuttrc'', ''~/.config/mutt/accounts/me.muttrc''),
        (''mainMuttrc'', ''~/.config/mutt/muttrc''),
        (''ACCOUNTMUTTRC'', ''~/.config/mutt/accounts/you.muttrc''),
        (''cacheHeaders'', ''~/.cache/mutt/headers''),
        (''accounts'', ''~/.config/mutt/accounts'')}
     = {''/home/u/.config/mutt/accounts'', ''/home/u/.config/mutt'',
        ''/home/u/.cache/mutt/headers''}
   \<and> fst (ensureDirectoriesFromPaths (posix ''/home/u'')
       [(''accountMuttrc'', ''~/.config/mutt/accounts/me.muttrc''),
        (''mainMuttrc'', ''~/.config/mutt/muttrc''),
        (''ACCOUNTMUTTRC'', ''~/.config/mutt/accounts/you.muttrc''),
        (''cacheHeaders'', ''~/.cache/mutt/headers''),
        (''accounts'', ''~/.config/mutt/accounts'')] (start home_fs))
     = Inr [''/home/u/.config/mutt/accounts'', ''/home/u/.config/mutt'',
        ''/home/u/.cache/mutt/headers'']"
proof -
  let ?P = "posix ''/home/u''"
  let ?paths = "[(''accountMuttrc'', ''~/.config/mutt/accounts/me.muttrc''),
        (''mainMuttrc'', ''~/.config/mutt/muttrc''),
        (''ACCOUNTMUTTRC'', ''~/.config/mutt/accounts/you.muttrc''),
        (''cacheHeaders'', ''~/.cache/mutt/headers''),
        (''accounts'', ''~/.config/mutt/accounts'')]"
  let ?dirs = "[''/home/u/.config/mutt/accounts'', ''/home/u/.config/mutt'',
        ''/home/u/.cache/mutt/headers'']"
  note main = ensureDirectoriesFromPaths_schedule [of ?P ?paths "start home_fs"]
  have entries: "Object_entries ?paths = ?paths"
    by (simp add: Object_entries_eval)
  have "collect_dirs ?P ?paths [] = ?dirs"
    by code_simp
  then have a: "collect_dirs ?P (Object_entries ?paths) [] = ?dirs"
    by (simp only: entries)
  have "set (collect_dirs ?P (Object_entries ?paths) []) = scheduled_dir ?P ` set ?paths"
    using main by blast
  then have b: "scheduled_dir ?P ` set ?paths = set ?dirs"
    by (simp only: a)
  have c: "fst (ensureDirectories ?P ?dirs (start home_fs)) = Inr ?dirs"
    by code_simp
  have "ensureDirectoriesFromPaths ?P ?paths (start home_fs)
      = ensureDirectories ?P (collect_dirs ?P (Object_entries ?paths) []) (start home_fs)"
    using main by blast
  then have d: "fst (ensureDirectoriesFromPaths ?P ?paths (start home_fs)) = Inr ?dirs"
    by (simp only: a c)
  from a b d show ?thesis by simp
qed

end
